theory Spec2Isabelle
  imports Complex_Main "HOL-Library.Sublist"
begin

section \<open>JavaScript values and the pieces of the runtime the handlers use\<close>

text \<open>
  The API routes of the frontend (\<^verbatim>\<open>pages/api/simulate.ts\<close>,
  \<^verbatim>\<open>pages/api/trajectory/[id].ts\<close>) and the client service
  (\<^verbatim>\<open>services/api.ts\<close>) work on untyped JSON payloads. A payload is a value of
  \<open>json\<close>; an object is an association list in which the first binding of a key is the
  one that is read. Strings are byte lists, which agrees with JavaScript's UTF-16 strings
  on ASCII text (all literals of the source are ASCII).
\<close>

datatype json =
    JUndefined
  | JNull
  | JBool bool
  | JNum real
  | JStr string
  | JArr "json list"
  | JObj "(string \<times> json) list"

text \<open>What an awaited call can throw: an axios error (with its \<open>code\<close> and, when the
  server answered, the \<open>response\<close> status and data) or a \<open>TypeError\<close> of the runtime.\<close>

datatype js_error =
    AxiosError (code: "string option") (response: "(nat \<times> json) option")
  | TypeError

datatype 'a promise = Resolved 'a | Rejected js_error

text \<open>An outgoing HTTP request made through axios, as the handler configures it.\<close>

record http_call =
  call_method :: string
  call_url :: string
  call_body :: "json option"
  call_timeout :: nat

text \<open>The incoming request of a Next.js API route and what the route answers:
  \<open>res.status(s).json(b)\<close> with the headers set before, or an exception that leaves the
  handler.\<close>

record api_request =
  req_method :: string
  req_body :: json
  req_query :: "(string \<times> json) list"

datatype api_response =
    Responded nat "(string \<times> string) list" json
  | Unhandled js_error

type_synonym env = "string \<rightharpoonup> string"

text \<open>\<open>!v\<close> is true for exactly the falsy values.\<close>

fun falsy :: "json \<Rightarrow> bool" where
  "falsy JUndefined = True"
| "falsy JNull = True"
| "falsy (JBool b) = (\<not> b)"
| "falsy (JNum x) = (x = 0)"
| "falsy (JStr s) = (s = [])"
| "falsy (JArr _) = False"
| "falsy (JObj _) = False"

fun typeof :: "json \<Rightarrow> string" where
  "typeof JUndefined = ''undefined''"
| "typeof JNull = ''object''"
| "typeof (JBool _) = ''boolean''"
| "typeof (JNum _) = ''number''"
| "typeof (JStr _) = ''string''"
| "typeof (JArr _) = ''object''"
| "typeof (JObj _) = ''object''"

text \<open>\<open>a || b\<close>\<close>

definition js_or :: "json \<Rightarrow> json \<Rightarrow> json" where
  "js_or a b = (if falsy a then b else a)"

text \<open>Property read \<open>v.k\<close> (and destructuring \<open>const {k} = v\<close>): a \<open>TypeError\<close> on
  \<open>null\<close> and \<open>undefined\<close>, the bound value on an object, \<open>undefined\<close> otherwise (no
  primitive or array has one of the property names the source reads).\<close>

fun get_prop :: "json \<Rightarrow> string \<Rightarrow> js_error + json" where
  "get_prop JUndefined k = Inl TypeError"
| "get_prop JNull k = Inl TypeError"
| "get_prop (JObj kvs) k = Inr (case map_of kvs k of None \<Rightarrow> JUndefined | Some v \<Rightarrow> v)"
| "get_prop _ k = Inr JUndefined"

text \<open>\<open>s.includes(t)\<close>: \<open>t\<close> occurs in \<open>s\<close> as a contiguous run.\<close>

fun str_includes :: "string \<Rightarrow> string \<Rightarrow> bool" where
  "str_includes [] t = (t = [])"
| "str_includes (c # cs) t = (prefix t (c # cs) \<or> str_includes cs t)"

text \<open>The characters of a value already known to be a string.\<close>

fun str_of :: "json \<Rightarrow> string" where
  "str_of (JStr s) = s"
| "str_of _ = []"

text \<open>String conversion inside a template literal. The decimal rendering of a number
  is the runtime's; it is the parameter \<open>ns\<close>.\<close>

fun join_commas :: "string list \<Rightarrow> string" where
  "join_commas [] = []"
| "join_commas [s] = s"
| "join_commas (s # t # ss) = s @ '','' @ join_commas (t # ss)"

fun js_to_string :: "(real \<Rightarrow> string) \<Rightarrow> json \<Rightarrow> string" where
  "js_to_string ns JUndefined = ''undefined''"
| "js_to_string ns JNull = ''null''"
| "js_to_string ns (JBool b) = (if b then ''true'' else ''false'')"
| "js_to_string ns (JNum x) = ns x"
| "js_to_string ns (JStr s) = s"
| "js_to_string ns (JArr vs) =
     join_commas (map (\<lambda>v. if v = JUndefined \<or> v = JNull then [] else js_to_string ns v) vs)"
| "js_to_string ns (JObj _) = ''[object Object]''"

definition error_body :: "string \<Rightarrow> json" where
  "error_body msg = JObj [(''error'', JStr msg)]"

section \<open>The simulate route\<close>

definition input_required_msg :: string where
  "input_required_msg = ''Input content is required and must be a string''"

definition read_data_msg :: string where
  "read_data_msg = ''Your input file references external data files with read_data command. This may cause errors as the referenced files are not available.''"

definition not_configured_msg :: string where
  "not_configured_msg = ''Backend API URL is not configured''"

definition timed_out_msg :: string where
  "timed_out_msg = ''Simulation timed out. The operation took too long to complete. Try reducing the number of timesteps or simplifying your simulation.''"

definition conn_reset_msg :: string where
  "conn_reset_msg = ''Connection was reset. The backend service might be unavailable or the simulation might be too complex. Try simplifying your simulation parameters.''"

definition simulate_failed_msg :: string where
  "simulate_failed_msg = ''Failed to run LAMMPS simulation. Please check your input file for errors and try again.''"

text \<open>The branch of both routes' \<open>catch\<close> blocks for an axios error that has a response:
  \<open>errorDetail = data.detail || data.error || 'Unknown error'\<close>, answered with the
  backend's status. Reading a property of \<open>null\<close> data throws again; that exception
  leaves the handler.\<close>

definition backend_error_response :: "(real \<Rightarrow> string) \<Rightarrow> nat \<Rightarrow> json \<Rightarrow> api_response" where
  "backend_error_response ns status data =
     (case get_prop data ''detail'' of
        Inl e \<Rightarrow> Unhandled e
      | Inr detail \<Rightarrow>
          (case get_prop data ''error'' of
             Inl e \<Rightarrow> Unhandled e
           | Inr er \<Rightarrow>
               Responded status []
                 (error_body (''Backend API error: '' @
                    js_to_string ns (js_or (js_or detail er) (JStr ''Unknown error''))))))"

text \<open>The \<open>catch\<close> block of the simulate route.\<close>

definition simulate_catch :: "(real \<Rightarrow> string) \<Rightarrow> js_error \<Rightarrow> api_response" where
  "simulate_catch ns err =
     (case err of
        AxiosError c (Some (status, data)) \<Rightarrow> backend_error_response ns status data
      | AxiosError c None \<Rightarrow>
          (if c = Some ''ECONNABORTED'' then Responded 504 [] (error_body timed_out_msg)
           else if c = Some ''ECONNRESET'' then Responded 503 [] (error_body conn_reset_msg)
           else Responded 500 [] (error_body simulate_failed_msg))
      | TypeError \<Rightarrow> Responded 500 [] (error_body simulate_failed_msg))"

text \<open>The body sent on to the backend: \<open>input_content\<close>, and \<open>potential_file_id\<close> when
  the request carries a truthy one.\<close>

definition simulate_request_body :: "string \<Rightarrow> json \<Rightarrow> json" where
  "simulate_request_body input_content potential_file_id =
     JObj ((''input_content'', JStr input_content) #
           (if falsy potential_file_id then [] else [(''potential_file_id'', potential_file_id)]))"

definition simulate_call :: "string \<Rightarrow> json \<Rightarrow> http_call" where
  "simulate_call backendUrl requestBody =
     \<lparr> call_method = ''POST'',
       call_url = backendUrl @ ''/run-lammps/'',
       call_body = Some requestBody,
       call_timeout = 600000 \<rparr>"

text \<open>The route itself. The backend is the function \<open>backend\<close> from the call made to
  what the awaited \<open>axios.post\<close> yields; the second component of the result lists the
  calls made to it, in order. Logging to the console is left out.\<close>

definition simulate_handler ::
  "(real \<Rightarrow> string) \<Rightarrow> env \<Rightarrow> api_request \<Rightarrow> (http_call \<Rightarrow> json promise)
     \<Rightarrow> api_response \<times> http_call list" where
  "simulate_handler ns env req backend =
     (if req_method req \<noteq> ''POST''
      then (Responded 405 [] (error_body ''Method not allowed''), [])
      else
        (case get_prop (req_body req) ''input_content'' of
           Inl e \<Rightarrow> (simulate_catch ns e, [])
         | Inr input_content \<Rightarrow>
            (case get_prop (req_body req) ''potential_file_id'' of
               Inl e \<Rightarrow> (simulate_catch ns e, [])
             | Inr potential_file_id \<Rightarrow>
                (if falsy input_content \<or> typeof input_content \<noteq> ''string''
                 then (Responded 400 [] (error_body input_required_msg), [])
                 else if str_includes (str_of input_content) ''read_data''
                       \<and> \<not> str_includes (str_of input_content) ''# read_data''
                 then (Responded 400 [] (error_body read_data_msg), [])
                 else
                   (case env ''NEXT_PUBLIC_API_URL'' of
                      None \<Rightarrow> (Responded 500 [] (error_body not_configured_msg), [])
                    | Some backendUrl \<Rightarrow>
                        (if backendUrl = []
                         then (Responded 500 [] (error_body not_configured_msg), [])
                         else
                           (let c = simulate_call backendUrl
                                      (simulate_request_body (str_of input_content)
                                         potential_file_id)
                            in (case backend c of
                                  Resolved data \<Rightarrow> (Responded 200 [] data, [c])
                                | Rejected e \<Rightarrow> (simulate_catch ns e, [c])))))))))"

text \<open>The claim about the check speaks of an uncommented \<open>read_data\<close> reference. In
  a LAMMPS script a comment runs from a \<open>#\<close> to the end of its line; the script has an
  uncommented reference when \<open>read_data\<close> occurs on some line before any \<open>#\<close> of that
  line. This definition follows the claim's words; the route does not use it.\<close>

fun script_lines :: "string \<Rightarrow> string list" where
  "script_lines [] = [[]]"
| "script_lines (c # cs) =
     (if c = CHR 0x0A then [] # script_lines cs
      else (case script_lines cs of
              [] \<Rightarrow> [[c]]
            | l # ls \<Rightarrow> (c # l) # ls))"

definition uncommented_read_data :: "string \<Rightarrow> bool" where
  "uncommented_read_data script =
     list_ex (\<lambda>l. str_includes (takeWhile (\<lambda>c. c \<noteq> CHR ''#'') l) ''read_data'')
       (script_lines script)"

section \<open>The trajectory route\<close>






section \<open>The client service and the page that runs a job\<close>

definition run_failed_msg :: string where
  "run_failed_msg = ''Failed to run simulation''"

text \<open>\<open>runLAMMPSSimulation\<close> of \<^verbatim>\<open>services/api.ts\<close>. \<open>api\<close> is what the awaited
  \<open>api.post\<close> yields. The axios instance sets no timeout (0). The promise is rejected
  only when the \<open>catch\<close> block itself throws.\<close>

definition runLAMMPSSimulation ::
  "string \<Rightarrow> string option \<Rightarrow> (http_call \<Rightarrow> json promise) \<Rightarrow> json promise" where
  "runLAMMPSSimulation inputContent potentialFileId api =
     (let request = JObj [(''input_content'', JStr inputContent),
                          (''potential_file_id'',
                             (case potentialFileId of None \<Rightarrow> JUndefined | Some i \<Rightarrow> JStr i))]
      in (case api \<lparr> call_method = ''POST'', call_url = ''/api/simulate'',
                      call_body = Some request, call_timeout = 0 \<rparr> of
            Resolved data \<Rightarrow> Resolved data
          | Rejected (AxiosError c (Some (status, data))) \<Rightarrow>
              (case get_prop data ''error'' of
                 Inl e \<Rightarrow> Rejected e
               | Inr er \<Rightarrow> Resolved (JObj [(''error'', js_or er (JStr run_failed_msg))]))
          | Rejected _ \<Rightarrow> Resolved (error_body run_failed_msg)))"

text \<open>\<open>handleRunSimulation\<close> of the home page: the value it hands to
  \<open>setSimulationResults\<close>. The page's \<open>potentialFileId\<close> is a string or \<open>null\<close>, passed on
  as \<open>potentialFileId || undefined\<close>.\<close>

definition handleRunSimulation ::
  "string \<Rightarrow> string option \<Rightarrow> (http_call \<Rightarrow> json promise) \<Rightarrow> json" where
  "handleRunSimulation inputContent potentialFileId api =
     (case runLAMMPSSimulation inputContent
             (case potentialFileId of None \<Rightarrow> None | Some i \<Rightarrow> if i = [] then None else Some i)
             api of
        Resolved results \<Rightarrow> results
      | Rejected _ \<Rightarrow> error_body run_failed_msg)"

text \<open>How the browser's axios sees a route of the Next.js server: a status in 200..299
  resolves with the body, any other status rejects with the response attached (the
  error's code is not read by \<open>runLAMMPSSimulation\<close>); a handler that throws is answered
  by the framework with status 500.\<close>

definition axios_settle :: "nat \<Rightarrow> json \<Rightarrow> json promise" where
  "axios_settle status data =
     (if 200 \<le> status \<and> status < 300 then Resolved data
      else Rejected (AxiosError None (Some (status, data))))"

definition served :: "(api_request \<Rightarrow> api_response \<times> http_call list) \<Rightarrow> http_call \<Rightarrow> json promise" where
  "served route c =
     (case fst (route \<lparr> req_method = call_method c,
                         req_body = (case call_body c of None \<Rightarrow> JUndefined | Some b \<Rightarrow> b),
                         req_query = [] \<rparr>) of
        Responded status hs body \<Rightarrow> axios_settle status body
      | Unhandled e \<Rightarrow> axios_settle 500 (JStr ''Internal Server Error''))"

text \<open>The connection between the browser and the server can fail as well: then axios
  rejects with an error of its own and the route's answer is not seen. \<open>failure\<close> says
  for which calls, and with which error.\<close>

definition over_network ::
  "(http_call \<Rightarrow> js_error option) \<Rightarrow> (http_call \<Rightarrow> json promise)
     \<Rightarrow> http_call \<Rightarrow> json promise" where
  "over_network failure api c = (case failure c of Some e \<Rightarrow> Rejected e | None \<Rightarrow> api c)"

definition simulate_route ::
  "(real \<Rightarrow> string) \<Rightarrow> env \<Rightarrow> (http_call \<Rightarrow> json promise) \<Rightarrow> api_request
     \<Rightarrow> api_response \<times> http_call list" where
  "simulate_route ns env backend req = simulate_handler ns env req backend"

text \<open>A field of a result object is populated when it is present and neither
  \<open>undefined\<close> nor \<open>null\<close>. The fields are those of \<open>SimulationResponse\<close>.\<close>

definition populated :: "json \<Rightarrow> string \<Rightarrow> bool" where
  "populated r k = (case get_prop r k of Inl _ \<Rightarrow> False
                     | Inr v \<Rightarrow> v \<noteq> JUndefined \<and> v \<noteq> JNull)"

definition payload_fields :: "string list" where
  "payload_fields = [''msd'', ''kinetic_energy'', ''frames'', ''atoms'', ''trajectory_file_id'']"

definition success_shaped :: "json \<Rightarrow> bool" where
  "success_shaped r = (list_all (populated r) payload_fields \<and> \<not> populated r ''error'')"

definition failure_shaped :: "json \<Rightarrow> bool" where
  "failure_shaped r = (populated r ''error'' \<and> \<not> list_ex (populated r) payload_fields)"

definition exactly_one_populated :: "json \<Rightarrow> bool" where
  "exactly_one_populated r = (success_shaped r \<or> failure_shaped r)"

section \<open>The backend's run-job answer\<close>

text \<open>Modelled from the spec: the backend endpoint \<^verbatim>\<open>/run-lammps/\<close> (the FastAPI
  service) is not part of the sources at hand. The spec gives its result as exactly one
  of a success payload (both series, the frame and atom counts, the trajectory artifact
  id) or an error text. \<open>render_result\<close> writes it with the field names of
  \<open>SimulationResponse\<close>; \<open>backend_run\<close> is the endpoint as axios sees it, where \<open>run\<close>
  yields the job's result or the failure of the HTTP call itself.\<close>

datatype job_result =
    Success "real list" "real list" nat nat string
  | Failure string

text \<open>Modelled from the spec: the result of the absent run endpoint as the response
  object, with exactly one of the payload or the error.\<close>

fun render_result :: "job_result \<Rightarrow> json" where
  "render_result (Success msd ke frames atoms artifact) =
     JObj [(''msd'', JArr (map JNum msd)),
           (''kinetic_energy'', JArr (map JNum ke)),
           (''frames'', JNum (real frames)),
           (''atoms'', JNum (real atoms)),
           (''trajectory_file_id'', JStr artifact)]"
| "render_result (Failure message) = JObj [(''error'', JStr message)]"

text \<open>Modelled from the spec: the absent run endpoint as axios sees it.\<close>

definition backend_run :: "(http_call \<Rightarrow> js_error + job_result) \<Rightarrow> http_call \<Rightarrow> json promise" where
  "backend_run run c = (case run c of Inl e \<Rightarrow> Rejected e | Inr r \<Rightarrow> Resolved (render_result r))"

section \<open>The backend's trajectory store\<close>







section \<open>The simulations table and its mutations\<close>

text \<open>The \<open>simulations\<close> table of the migration \<^verbatim>\<open>up.sql\<close>: \<open>status\<close> is
  \<open>TEXT NOT NULL DEFAULT 'pending'\<close> with no check constraint, \<open>input_id\<close> references
  \<open>simulation_inputs\<close>. The key of a new row (\<open>gen_random_uuid()\<close>) and the time
  (\<open>NOW()\<close>) are parameters.\<close>

record simulation =
  sim_id :: string
  status :: string
  input_id :: string
  trajectory_file_path :: "string option"
  velocity_file_path :: "string option"
  msd :: "json option"
  kinetic_energy :: "json option"
  frames :: "int option"
  atoms :: "int option"
  error :: "string option"
  user_id :: "string option"
  created_at :: nat
  updated_at :: nat

record database =
  simulation_inputs :: "string list"
  simulations :: "(string \<times> simulation) list"

datatype db_error = ForeignKeyViolation | UniqueViolation

text \<open>\<open>insert_simulations_one(object: {input_id, status})\<close>; a column the object leaves
  out takes its default.\<close>

definition insert_simulations_one ::
  "string \<Rightarrow> nat \<Rightarrow> string \<Rightarrow> string option \<Rightarrow> database \<Rightarrow> db_error + simulation \<times> database" where
  "insert_simulations_one new_id now inp st db =
     (if inp \<notin> set (simulation_inputs db) then Inl ForeignKeyViolation
      else if new_id \<in> fst ` set (simulations db) then Inl UniqueViolation
      else
        (let row = \<lparr> sim_id = new_id,
                     status = (case st of None \<Rightarrow> ''pending'' | Some s \<Rightarrow> s),
                     input_id = inp,
                     trajectory_file_path = None, velocity_file_path = None,
                     msd = None, kinetic_energy = None, frames = None, atoms = None,
                     error = None, user_id = None,
                     created_at = now, updated_at = now \<rparr>
         in Inr (row, db\<lparr>simulations := simulations db @ [(new_id, row)]\<rparr>)))"

text \<open>The mutation \<open>CREATE_SIMULATION\<close> of \<^verbatim>\<open>graphql/mutations.ts\<close>.\<close>

definition CREATE_SIMULATION ::
  "string \<Rightarrow> nat \<Rightarrow> string \<Rightarrow> database \<Rightarrow> db_error + simulation \<times> database" where
  "CREATE_SIMULATION new_id now inp db =
     insert_simulations_one new_id now inp (Some ''pending'') db"

text \<open>The mutation \<open>UPDATE_SIMULATION_STATUS\<close>: \<open>update_simulations_by_pk\<close> sets the
  status of the row with the key, the trigger \<open>set_simulations_updated_at\<close> stamps it;
  no row, no change.\<close>

definition UPDATE_SIMULATION_STATUS ::
  "string \<Rightarrow> string \<Rightarrow> nat \<Rightarrow> database \<Rightarrow> simulation option \<times> database" where
  "UPDATE_SIMULATION_STATUS ident st now db =
     (case map_of (simulations db) ident of
        None \<Rightarrow> (None, db)
      | Some row \<Rightarrow>
          (let row' = row\<lparr>status := st, updated_at := now\<rparr>
           in (Some row',
               db\<lparr>simulations :=
                    map (\<lambda>(k, r). if k = ident then (k, row') else (k, r)) (simulations db)\<rparr>)))"

definition status_of :: "database \<Rightarrow> string \<Rightarrow> string option" where
  "status_of db ident = map_option status (map_of (simulations db) ident)"

definition known_statuses :: "string list" where
  "known_statuses = [''pending'', ''running'', ''completed'', ''failed'']"

definition terminal_status :: "string \<Rightarrow> bool" where
  "terminal_status s = (s = ''completed'' \<or> s = ''failed'')"

section \<open>The Observable Calculator\<close>

text \<open>Modelled from the spec: the Observable Calculator is part of the backend and not
  among the sources at hand. The spec: a frame is a timestep and a mapping, ordered by
  id, from atom id to type, position and velocity;
  MSD(t) = (1 / atomCount) * sum over atoms of the squared Euclidean distance between
  the atom's position at frame t and at frame 0;
  KE(t) = (1/2) * sum over atoms of mass(type) * |velocity(t)|^2, the mass source being
  pluggable; both series have one value per frame; atomCount = 0 short-circuits to a
  ComputeError. Numbers are real numbers here, not floating-point numbers. The atom count
  is that of the reference (first) frame; a trajectory without frames has none. The spec
  leaves open what the calculator does with an atom of the reference frame that a later
  frame lacks (the parser refuses such input): here it is a ComputeError.\<close>

type_synonym vec3 = "real \<times> real \<times> real"

record atom_record =
  atom_type :: nat
  position :: vec3
  velocity :: vec3

record frame =
  timestep :: nat
  frame_atoms :: "(nat \<times> atom_record) list"

datatype pipeline_error =
    ValidationError | ResolutionError | EngineError | TimeoutError
  | OutputMissingError | ParseError | ComputeError

fun sq_norm :: "vec3 \<Rightarrow> real" where
  "sq_norm (x, y, z) = x * x + y * y + z * z"

fun vec_diff :: "vec3 \<Rightarrow> vec3 \<Rightarrow> vec3" where
  "vec_diff (x, y, z) (x', y', z') = (x - x', y - y', z - z')"

definition sq_dist :: "vec3 \<Rightarrow> vec3 \<Rightarrow> real" where
  "sq_dist p q = sq_norm (vec_diff p q)"

definition position_of :: "frame \<Rightarrow> nat \<Rightarrow> vec3" where
  "position_of f i = position (the (map_of (frame_atoms f) i))"

definition atom_count :: "frame list \<Rightarrow> nat" where
  "atom_count fs = (case fs of [] \<Rightarrow> 0 | f0 # _ \<Rightarrow> length (frame_atoms f0))"

text \<open>Modelled from the spec: the absent calculator's squared displacements. For each
  atom of the reference frame, in order, its squared displacement in the frame \<open>f\<close>,
  where it is found by id.\<close>

fun displacements :: "(nat \<times> atom_record) list \<Rightarrow> frame \<Rightarrow> real list option" where
  "displacements [] f = Some []"
| "displacements ((i, a0) # ref) f =
     (case map_of (frame_atoms f) i of
        None \<Rightarrow> None
      | Some a \<Rightarrow> map_option (\<lambda>ds. sq_dist (position a) (position a0) # ds)
                    (displacements ref f))"

text \<open>Modelled from the spec: MSD(t) of the absent calculator, the sum of the squared
  displacements divided by the atom count.\<close>

definition msd_at :: "(nat \<times> atom_record) list \<Rightarrow> frame \<Rightarrow> real option" where
  "msd_at ref f = map_option (\<lambda>ds. sum_list ds / real (length ref)) (displacements ref f)"

text \<open>Modelled from the spec: KE(t) of the absent calculator.\<close>

definition ke_at :: "(nat \<Rightarrow> real) \<Rightarrow> frame \<Rightarrow> real" where
  "ke_at mass f =
     (1 / 2) * sum_list (map (\<lambda>(i, a). mass (atom_type a) * sq_norm (velocity a)) (frame_atoms f))"

text \<open>Modelled from the spec: the MSD series of the absent calculator, one value per
  frame in frame order.\<close>

fun msd_series :: "(nat \<times> atom_record) list \<Rightarrow> frame list \<Rightarrow> real list option" where
  "msd_series ref [] = Some []"
| "msd_series ref (f # fs) =
     (case msd_at ref f of
        None \<Rightarrow> None
      | Some m \<Rightarrow> map_option (\<lambda>ms. m # ms) (msd_series ref fs))"

text \<open>Modelled from the spec: the absent Observable Calculator, both series or a
  ComputeError.\<close>

definition compute_observables ::
  "(nat \<Rightarrow> real) \<Rightarrow> frame list \<Rightarrow> pipeline_error + real list \<times> real list" where
  "compute_observables mass fs =
     (case fs of
        [] \<Rightarrow> Inl ComputeError
      | f0 # _ \<Rightarrow>
          (if atom_count fs = 0 then Inl ComputeError
           else (case msd_series (frame_atoms f0) fs of
                   None \<Rightarrow> Inl ComputeError
                 | Some msds \<Rightarrow> Inr (msds, map (ke_at mass) fs))))"

text \<open>Modelled from the spec: what the absent Trajectory Parser lets through. A valid
  trajectory, by the invariants of the spec's data model: at least one frame,
  at least one atom, every frame ordered by atom id with the ids of the reference frame,
  the frames in strictly ascending timestep.\<close>

definition atom_ids :: "frame \<Rightarrow> nat list" where
  "atom_ids f = map fst (frame_atoms f)"

definition valid_trajectory :: "frame list \<Rightarrow> bool" where
  "valid_trajectory fs =
     (case fs of
        [] \<Rightarrow> False
      | f0 # _ \<Rightarrow>
          frame_atoms f0 \<noteq> []
          \<and> list_all (\<lambda>f. sorted_wrt (<) (atom_ids f) \<and> atom_ids f = atom_ids f0) fs
          \<and> sorted_wrt (<) (map timestep fs))"

section \<open>Concrete inputs\<close>

text \<open>The deployment of \<^verbatim>\<open>docker-compose.yml\<close>, requests, backends and a trajectory
  used to run the definitions.\<close>

definition example_env :: env where
  "example_env = [''NEXT_PUBLIC_API_URL'' \<mapsto> ''http://fastapi:8000'']"

definition tuned_env :: env where
  "tuned_env = [''NEXT_PUBLIC_API_URL'' \<mapsto> ''http://fastapi:8000'',
                ''SIMULATION_TIMEOUT_MS'' \<mapsto> ''1000'']"

definition post_script :: "string \<Rightarrow> api_request" where
  "post_script s =
     \<lparr> req_method = ''POST'', req_body = JObj [(''input_content'', JStr s)], req_query = [] \<rparr>"

definition tuned_request :: api_request where
  "tuned_request =
     \<lparr> req_method = ''POST'',
       req_body = JObj [(''input_content'', JStr ''units lj''), (''timeout'', JNum 1000)],
       req_query = [(''timeout'', JStr ''1000'')] \<rparr>"


definition no_numbers :: "real \<Rightarrow> string" where
  "no_numbers x = []"

definition example_payload :: json where
  "example_payload = render_result (Success [0, 1 / 2] [0, 0] 2 2 ''traj-1'')"

definition backend_completes :: "http_call \<Rightarrow> json promise" where
  "backend_completes c = Resolved example_payload"

definition backend_times_out :: "http_call \<Rightarrow> json promise" where
  "backend_times_out c = Rejected (AxiosError (Some ''ECONNABORTED'') None)"

definition run_succeeds :: "http_call \<Rightarrow> js_error + job_result" where
  "run_succeeds c = Inr (Success [0, 1 / 2] [0, 0] 2 2 ''traj-1'')"

definition run_fails :: "http_call \<Rightarrow> js_error + job_result" where
  "run_fails c = Inr (Failure ''LAMMPS exited with an error'')"

definition reliable :: "http_call \<Rightarrow> js_error option" where
  "reliable c = None"

definition unreachable :: "http_call \<Rightarrow> js_error option" where
  "unreachable c = Some (AxiosError (Some ''ERR_NETWORK'') None)"

definition example_call :: http_call where
  "example_call =
     simulate_call ''http://fastapi:8000'' (JObj [(''input_content'', JStr ''units lj'')])"



definition db0 :: database where
  "db0 = \<lparr> simulation_inputs = [''input-1''], simulations = [] \<rparr>"

definition db1 :: database where
  "db1 = snd (UPDATE_SIMULATION_STATUS ''sim-1'' ''completed'' 1
           (case CREATE_SIMULATION ''sim-1'' 0 ''input-1'' db0 of
              Inr (row, db) \<Rightarrow> db
            | Inl _ \<Rightarrow> db0))"

definition unit_mass :: "nat \<Rightarrow> real" where
  "unit_mass t = 1"



definition drifting :: "frame list" where
  "drifting =
     [\<lparr> timestep = 0,
        frame_atoms = [(7, \<lparr> atom_type = 1, position = (1, 2, 3), velocity = (1, 0, 0) \<rparr>)] \<rparr>,
      \<lparr> timestep = 100,
        frame_atoms = [(7, \<lparr> atom_type = 1, position = (4, 6, 3), velocity = (0, 2, 0) \<rparr>)] \<rparr>]"

section \<open>Properties of the runtime model\<close>

lemma str_includes_iff_sublist: "str_includes s t \<longleftrightarrow> sublist t s"
  by (induction s) (auto simp: sublist_Cons_right)

lemma str_includes_imp_nonempty: "str_includes s t \<Longrightarrow> t \<noteq> [] \<Longrightarrow> s \<noteq> []"
  by (cases s) auto

lemma get_prop_Inr_other:
  "get_prop b k = Inr v \<Longrightarrow> \<exists>w. get_prop b k' = Inr w"
  by (cases b) auto

lemma falsy_js_or: "\<not> falsy b \<Longrightarrow> \<not> falsy (js_or a b)"
  by (simp add: js_or_def)

lemma not_falsy_defined: "\<not> falsy v \<Longrightarrow> v \<noteq> JUndefined \<and> v \<noteq> JNull"
  by (cases v) auto

section \<open>The simulate route: which branch answers\<close>

lemma simulate_catch_not_input_required:
  "simulate_catch ns e \<noteq> Responded 400 [] (error_body input_required_msg)"
  by (auto simp: simulate_catch_def backend_error_response_def error_body_def
        input_required_msg_def timed_out_msg_def conn_reset_msg_def simulate_failed_msg_def
      split: js_error.splits option.splits sum.splits prod.splits)

lemma simulate_catch_not_read_data:
  "simulate_catch ns e \<noteq> Responded 400 [] (error_body read_data_msg)"
  by (auto simp: simulate_catch_def backend_error_response_def error_body_def
        read_data_msg_def timed_out_msg_def conn_reset_msg_def simulate_failed_msg_def
      split: js_error.splits option.splits sum.splits prod.splits)

text \<open>A POST request whose script passes both checks, on a configured deployment, makes
  exactly one call to the backend and answers from what that call yields.\<close>

lemma simulate_handler_accepted:
  assumes "req_method req = ''POST''"
    and "get_prop (req_body req) ''input_content'' = Inr (JStr script)"
    and "get_prop (req_body req) ''potential_file_id'' = Inr pf"
    and "script \<noteq> []"
    and "\<not> (str_includes script ''read_data'' \<and> \<not> str_includes script ''# read_data'')"
    and "env ''NEXT_PUBLIC_API_URL'' = Some backendUrl" and "backendUrl \<noteq> []"
  shows "simulate_handler ns env req backend =
           ((case backend (simulate_call backendUrl (simulate_request_body script pf)) of
               Resolved data \<Rightarrow> Responded 200 [] data
             | Rejected e \<Rightarrow> simulate_catch ns e),
            [simulate_call backendUrl (simulate_request_body script pf)])"
  using assms by (auto simp: simulate_handler_def Let_def split: promise.splits)

lemma example_accepted:
  "simulate_handler ns example_env (post_script ''units lj'') backend =
     ((case backend example_call of
         Resolved data \<Rightarrow> Responded 200 [] data
       | Rejected e \<Rightarrow> simulate_catch ns e),
      [example_call])"
  by (simp add: simulate_handler_def Let_def example_env_def post_script_def example_call_def
        simulate_request_body_def split: promise.splits)

lemma tuned_accepted:
  "snd (simulate_handler ns tuned_env tuned_request backend) = [example_call]"
  by (simp add: simulate_handler_def Let_def tuned_env_def tuned_request_def example_call_def
        simulate_request_body_def split: promise.splits)



lemma simulate_calls_timeout:
  "c \<in> set (snd (simulate_handler ns env req backend)) \<Longrightarrow> call_timeout c = 600000"
  by (auto simp: simulate_handler_def Let_def simulate_call_def
      split: if_splits sum.splits option.splits promise.splits)

lemma timed_out_msg_says_so: "str_includes timed_out_msg ''timed out''"
  by (simp add: timed_out_msg_def)

section \<open>The shape of a run-job result\<close>

lemma failure_shaped_error_body: "failure_shaped (error_body m)"
  by (simp add: failure_shaped_def error_body_def populated_def payload_fields_def)

lemma exactly_one_error_body: "exactly_one_populated (error_body m)"
  by (simp add: exactly_one_populated_def failure_shaped_error_body)

lemma exactly_one_render: "exactly_one_populated (render_result r)"
  by (cases r) (simp_all add: exactly_one_populated_def success_shaped_def failure_shaped_def
       populated_def payload_fields_def)

lemma exactly_one_error_only: "\<not> falsy v \<Longrightarrow> exactly_one_populated (JObj [(''error'', v)])"
  using not_falsy_defined [of v]
  by (simp add: exactly_one_populated_def failure_shaped_def populated_def payload_fields_def)

lemma backend_error_response_shape:
  "backend_error_response ns st d = Responded st' hs body \<Longrightarrow> exactly_one_populated body"
  by (auto simp: backend_error_response_def exactly_one_error_body split: sum.splits)

lemma simulate_catch_shape:
  "simulate_catch ns e = Responded st hs body \<Longrightarrow> exactly_one_populated body"
  by (auto simp: simulate_catch_def exactly_one_error_body
      split: js_error.splits option.splits if_splits
      dest: backend_error_response_shape)

lemma simulate_handler_shape:
  "fst (simulate_handler ns env req (backend_run run)) = Responded st hs body
     \<Longrightarrow> exactly_one_populated body"
  by (auto simp: simulate_handler_def Let_def backend_run_def exactly_one_error_body
        exactly_one_render
      split: if_splits sum.splits option.splits promise.splits
      dest: simulate_catch_shape)

lemma served_simulate_shape:
  "served (simulate_route ns env (backend_run run)) c = Resolved d
     \<Longrightarrow> exactly_one_populated d"
  by (auto simp: served_def axios_settle_def simulate_route_def
      split: api_response.splits if_splits
      dest: simulate_handler_shape)

lemma runLAMMPSSimulation_shape:
  assumes "\<And>c d. api c = Resolved d \<Longrightarrow> exactly_one_populated d"
  shows "runLAMMPSSimulation ic pf api = Resolved r \<Longrightarrow> exactly_one_populated r"
  using assms
  by (auto simp: runLAMMPSSimulation_def Let_def exactly_one_error_body exactly_one_error_only
        falsy_js_or run_failed_msg_def
      split: promise.splits js_error.splits option.splits sum.splits)

section \<open>The trajectory route: which branch answers\<close>








section \<open>The simulations table: rows after a mutation\<close>

lemma map_of_append_fresh:
  "k \<notin> fst ` set kvs \<Longrightarrow> map_of (kvs @ [(k, r)]) k = Some r"
  by (induction kvs) auto

lemma insert_status:
  "insert_simulations_one new_id now inp st db = Inr (row, db') \<Longrightarrow>
     status row = (case st of None \<Rightarrow> ''pending'' | Some s \<Rightarrow> s)
   \<and> status_of db' new_id = Some (status row)"
  by (auto simp: insert_simulations_one_def Let_def status_of_def map_of_append_fresh
      simp del: map_of_append split: if_splits)

lemma map_of_update_row:
  "map_of kvs k = Some r \<Longrightarrow>
   map_of (map (\<lambda>(k', r'). if k' = k then (k', r1) else (k', r')) kvs) k = Some r1"
  by (induction kvs) (auto split: if_splits)

lemma update_status:
  "map_of (simulations db) ident = Some row \<Longrightarrow>
     status_of (snd (UPDATE_SIMULATION_STATUS ident st now db)) ident = Some st"
  by (simp add: UPDATE_SIMULATION_STATUS_def Let_def status_of_def map_of_update_row)

section \<open>The Observable Calculator: closed forms\<close>

lemma sq_dist_self: "sq_dist p p = 0"
  by (cases p) (simp add: sq_dist_def)

lemma sum_list_all_zero:
  "(\<And>x. x \<in> set xs \<Longrightarrow> g x = (0::real)) \<Longrightarrow> sum_list (map g xs) = 0"
  by (induction xs) simp_all

lemma strictly_sorted_distinct: "sorted_wrt (<) (xs :: nat list) \<Longrightarrow> distinct xs"
  by (simp add: strict_sorted_iff)

lemma displacements_formula:
  "fst ` set ref \<subseteq> fst ` set (frame_atoms f) \<Longrightarrow>
   displacements ref f
     = Some (map (\<lambda>(i, a0). sq_dist (position_of f i) (position a0)) ref)"
proof (induction ref)
  case Nil
  then show ?case by simp
next
  case (Cons p ref)
  obtain i a0 where p: "p = (i, a0)" by (cases p)
  from Cons.prems p have "i \<in> fst ` set (frame_atoms f)" by simp
  then obtain a where a: "map_of (frame_atoms f) i = Some a"
    by (metis map_of_eq_None_iff not_Some_eq)
  from Cons.prems have "fst ` set ref \<subseteq> fst ` set (frame_atoms f)" by simp
  with Cons.IH a p show ?case by (simp add: position_of_def)
qed

lemma msd_series_formula:
  "list_all (\<lambda>f. fst ` set ref \<subseteq> fst ` set (frame_atoms f)) fs \<Longrightarrow>
   msd_series ref fs
     = Some (map (\<lambda>f. sum_list (map (\<lambda>(i, a0). sq_dist (position_of f i) (position a0)) ref)
                        / real (length ref)) fs)"
  by (induction fs) (simp_all add: msd_at_def displacements_formula)

lemma valid_trajectoryD:
  assumes "valid_trajectory fs"
  obtains f0 rest where "fs = f0 # rest" "frame_atoms f0 \<noteq> []"
    "list_all (\<lambda>f. sorted_wrt (<) (atom_ids f) \<and> atom_ids f = atom_ids f0) fs"
  using assms by (auto simp: valid_trajectory_def split: list.splits)

lemma compute_observables_valid:
  assumes "valid_trajectory fs"
  shows "compute_observables mass fs
     = Inr (map (\<lambda>f. sum_list (map (\<lambda>(i, a0). sq_dist (position_of f i) (position a0))
                                  (frame_atoms (hd fs)))
                        / real (length (frame_atoms (hd fs)))) fs,
            map (ke_at mass) fs)"
proof -
  from assms obtain f0 rest where fs: "fs = f0 # rest" and ne: "frame_atoms f0 \<noteq> []"
    and all: "list_all (\<lambda>f. sorted_wrt (<) (atom_ids f) \<and> atom_ids f = atom_ids f0) fs"
    by (rule valid_trajectoryD)
  have "list_all (\<lambda>f. fst ` set (frame_atoms f0) \<subseteq> fst ` set (frame_atoms f)) fs"
  proof -
    have "fst ` set (frame_atoms f0) \<subseteq> fst ` set (frame_atoms f)"
      if "atom_ids f = atom_ids f0" for f
      using that by (metis atom_ids_def set_map subset_refl)
    with all show ?thesis by (auto simp: list_all_iff)
  qed
  then have "msd_series (frame_atoms f0) fs
     = Some (map (\<lambda>f. sum_list (map (\<lambda>(i, a0). sq_dist (position_of f i) (position a0))
                                  (frame_atoms f0))
                        / real (length (frame_atoms f0))) fs)"
    by (rule msd_series_formula)
  with fs ne show ?thesis
    by (simp add: compute_observables_def atom_count_def)
qed

lemma position_of_member:
  assumes "distinct (atom_ids f)" "(i, a) \<in> set (frame_atoms f)"
  shows "position_of f i = position a"
  using assms by (simp add: position_of_def atom_ids_def)

lemma reference_displacement_zero:
  assumes "distinct (atom_ids f)"
  shows "sum_list (map (\<lambda>(i, a0). sq_dist (position_of f i) (position a0)) (frame_atoms f)) = 0"
  using assms by (intro sum_list_all_zero) (auto simp: position_of_member sq_dist_self)

lemma msd_series_aligned:
  "msd_series ref fs = Some ms \<Longrightarrow>
     length ms = length fs \<and> (\<forall>t < length fs. msd_at ref (fs ! t) = Some (ms ! t))"
proof (induction fs arbitrary: ms)
  case Nil
  then show ?case by simp
next
  case (Cons f fs)
  from Cons.prems obtain m ms' where m: "msd_at ref f = Some m"
    and ms': "msd_series ref fs = Some ms'" and ms: "ms = m # ms'"
    by (auto split: option.splits)
  from Cons.IH [OF ms'] m ms show ?case
    by (auto simp: nth_Cons split: nat.splits)
qed



lemma drifting_valid: "valid_trajectory drifting"
  by (simp add: valid_trajectory_def drifting_def atom_ids_def)

lemma drifting_result:
  "compute_observables unit_mass drifting = Inr ([0, 25], [1 / 2, 2])"
  by (simp add: compute_observables_def drifting_def atom_count_def msd_at_def ke_at_def
        sq_dist_def unit_mass_def)

section \<open>The claims\<close>

subsection \<open>C1: a run-job result is all-or-nothing\<close>

text \<open>
  C1. For every run-job result, exactly one of the success payload (msd and
  kinetic-energy series, frame count, atom count, trajectory artifact id) or the error
  field is populated: a failed result carries no series or counts, a successful one no
  error field. The result is what the home page receives from \<open>runLAMMPSSimulation\<close>
  through the simulate route; the backend's answer is the one modelled from the spec,
  and the call to it, like the call to the route, may also fail in any way. Whatever the request, the deployment and
  the backend's run, the result has the payload fields all populated and no error, or
  the error populated and none of the payload fields.
\<close>

theorem run_result_all_or_nothing:
  "exactly_one_populated
     (handleRunSimulation inputContent potentialFileId
        (over_network failure (served (simulate_route ns env (backend_run run)))))"
proof (cases "runLAMMPSSimulation inputContent
                (case potentialFileId of None \<Rightarrow> None
                 | Some i \<Rightarrow> if i = [] then None else Some i)
                (over_network failure (served (simulate_route ns env (backend_run run))))")
  case (Resolved r)
  have "exactly_one_populated d"
    if "over_network failure (served (simulate_route ns env (backend_run run))) c = Resolved d"
    for c d
    using that served_simulate_shape [of ns env run c d]
    by (simp add: over_network_def split: option.splits)
  with Resolved have "exactly_one_populated r"
    by (rule runLAMMPSSimulation_shape [rotated])
  with Resolved show ?thesis by (simp add: handleRunSimulation_def)
next
  case (Rejected e)
  then show ?thesis by (simp add: handleRunSimulation_def exactly_one_error_body)
qed

theorem run_result_all_or_nothing_witness:
  "success_shaped
     (handleRunSimulation ''units lj'' None
        (over_network reliable
           (served (simulate_route no_numbers example_env (backend_run run_succeeds)))))
   \<and> failure_shaped
     (handleRunSimulation ''units lj'' None
        (over_network reliable
           (served (simulate_route no_numbers example_env (backend_run run_fails)))))
   \<and> failure_shaped
     (handleRunSimulation [] None
        (over_network reliable
           (served (simulate_route no_numbers example_env (backend_run run_succeeds)))))
   \<and> failure_shaped
     (handleRunSimulation ''units lj'' None
        (over_network unreachable
           (served (simulate_route no_numbers example_env (backend_run run_succeeds)))))"
proof -
  have a: "handleRunSimulation ''units lj'' None
             (over_network reliable
                (served (simulate_route no_numbers example_env (backend_run run_succeeds))))
           = example_payload"
    by (simp add: handleRunSimulation_def runLAMMPSSimulation_def served_def simulate_route_def
          simulate_handler_def example_env_def backend_run_def run_succeeds_def
          axios_settle_def example_payload_def over_network_def reliable_def Let_def)
  have b: "handleRunSimulation ''units lj'' None
             (over_network reliable
                (served (simulate_route no_numbers example_env (backend_run run_fails))))
           = error_body ''LAMMPS exited with an error''"
    by (simp add: handleRunSimulation_def runLAMMPSSimulation_def served_def simulate_route_def
          simulate_handler_def example_env_def backend_run_def run_fails_def
          axios_settle_def error_body_def over_network_def reliable_def Let_def)
  have c: "handleRunSimulation [] None
             (over_network reliable
                (served (simulate_route no_numbers example_env (backend_run run_succeeds))))
           = error_body input_required_msg"
    by (simp add: handleRunSimulation_def runLAMMPSSimulation_def served_def simulate_route_def
          simulate_handler_def axios_settle_def error_body_def js_or_def
          input_required_msg_def over_network_def reliable_def Let_def)
  have d: "handleRunSimulation ''units lj'' None
             (over_network unreachable
                (served (simulate_route no_numbers example_env (backend_run run_succeeds))))
           = error_body run_failed_msg"
    by (simp add: handleRunSimulation_def runLAMMPSSimulation_def over_network_def
          unreachable_def Let_def)
  have na: "\<not> failure_shaped example_payload"
    by (simp add: failure_shaped_def example_payload_def populated_def)
  have nb: "\<not> success_shaped (error_body m)" for m
    by (simp add: success_shaped_def error_body_def populated_def)
  from run_result_all_or_nothing
         [of "''units lj''" None reliable no_numbers example_env run_succeeds]
       run_result_all_or_nothing
         [of "''units lj''" None reliable no_numbers example_env run_fails]
       run_result_all_or_nothing
         [of "[]" None reliable no_numbers example_env run_succeeds]
       run_result_all_or_nothing
         [of "''units lj''" None unreachable no_numbers example_env run_succeeds]
  show ?thesis
    unfolding a b c d exactly_one_populated_def using na nb by blast
qed

subsection \<open>C2: one value per frame, and no displacement at frame 0\<close>

text \<open>
  C2. For every valid trajectory of N frames the Observable Calculator returns an MSD
  series and a kinetic-energy series that both have length exactly N, the value at
  index t being the one computed from frame t, and the MSD value at frame 0 is 0. The calculator is the one
  modelled from the spec, over real numbers; a valid trajectory has at least one frame
  and one atom, and every frame lists the atoms of frame 0, ordered by id.
\<close>

theorem series_one_value_per_frame:
  assumes "valid_trajectory fs"
  shows "\<exists>msds kes. compute_observables mass fs = Inr (msds, kes)
           \<and> length msds = length fs \<and> length kes = length fs
           \<and> (\<forall>t < length fs. msd_at (frame_atoms (fs ! 0)) (fs ! t) = Some (msds ! t)
                                \<and> kes ! t = ke_at mass (fs ! t))
           \<and> msds ! 0 = 0"
proof -
  from assms obtain f0 rest where fs: "fs = f0 # rest" and ne: "frame_atoms f0 \<noteq> []"
    and all: "list_all (\<lambda>f. sorted_wrt (<) (atom_ids f) \<and> atom_ids f = atom_ids f0) fs"
    by (rule valid_trajectoryD)
  from all fs have "sorted_wrt (<) (atom_ids f0)" by simp
  then have "distinct (atom_ids f0)" by (rule strictly_sorted_distinct)
  then have "sum_list (map (\<lambda>(i, a0). sq_dist (position_of f0 i) (position a0))
                         (frame_atoms f0)) = 0"
    by (rule reference_displacement_zero)
  with fs have zero: "map (\<lambda>f. sum_list (map (\<lambda>(i, a0). sq_dist (position_of f i) (position a0))
                                       (frame_atoms (hd fs)))
                             / real (length (frame_atoms (hd fs)))) fs ! 0 = 0"
    by simp
  define msds where "msds = map (\<lambda>f. sum_list (map (\<lambda>(i, a0). sq_dist (position_of f i) (position a0))
                                       (frame_atoms (hd fs)))
                             / real (length (frame_atoms (hd fs)))) fs"
  have r: "compute_observables mass fs = Inr (msds, map (ke_at mass) fs)"
    unfolding msds_def by (rule compute_observables_valid [OF assms])
  then have "msd_series (frame_atoms f0) fs = Some msds"
    using fs ne by (auto simp: compute_observables_def atom_count_def split: option.splits)
  then have al: "\<forall>t < length fs. msd_at (frame_atoms (fs ! 0)) (fs ! t) = Some (msds ! t)"
    using msd_series_aligned [of "frame_atoms f0" fs msds] fs by simp
  have "length msds = length fs" by (simp add: msds_def)
  with r al zero show ?thesis
    unfolding msds_def [symmetric] by (intro exI conjI) (assumption, simp_all)
qed

theorem series_one_value_per_frame_witness:
  "valid_trajectory drifting
   \<and> compute_observables unit_mass drifting = Inr ([0, 25], [1 / 2, 2])
   \<and> length [0, 25 :: real] = length drifting
   \<and> length [1 / 2, 2 :: real] = length drifting
   \<and> msd_at (frame_atoms (drifting ! 0)) (drifting ! 1) = Some ([0, 25] ! 1)
   \<and> [0, 25 :: real] ! 0 = 0"
proof -
  from series_one_value_per_frame [OF drifting_valid, of unit_mass]
  obtain msds kes where r: "compute_observables unit_mass drifting = Inr (msds, kes)"
    and a: "\<forall>t < length drifting.
              msd_at (frame_atoms (drifting ! 0)) (drifting ! t) = Some (msds ! t)
              \<and> kes ! t = ke_at unit_mass (drifting ! t)"
    by blast
  from r have m: "msds = [0, 25]" by (simp add: drifting_result)
  have "(1::nat) < length drifting" by (simp add: drifting_def)
  with a have "msd_at (frame_atoms (drifting ! 0)) (drifting ! 1) = Some (msds ! 1)"
    by blast
  then have e: "msd_at (frame_atoms (drifting ! 0)) (drifting ! 1) = Some ([0, 25] ! 1)"
    unfolding m .
  have l: "length [0, 25 :: real] = length drifting" "length [1 / 2, 2 :: real] = length drifting"
    "[0, 25 :: real] ! 0 = 0"
    by (simp_all add: drifting_def)
  show ?thesis by (intro conjI drifting_valid drifting_result e l)
qed

subsection \<open>C3: the MSD is the mean squared displacement from frame 0\<close>



subsection \<open>C4: an empty script is refused before anything runs\<close>

text \<open>
  C4. For every run-job request whose script content is empty, the submission fails
  with a validation error surfaced synchronously: the simulate route makes no call to
  the backend (so no engine run, no job) and, the request being a POST, answers 400 with
  the text that input content is required. For every request with non-empty script
  text this validation error is not the answer.
\<close>

theorem empty_script_is_a_validation_error:
  assumes ic: "get_prop (req_body req) ''input_content'' = Inr (JStr script)"
  shows "(script = [] \<longrightarrow>
            snd (simulate_handler ns env req backend) = []
          \<and> (req_method req = ''POST'' \<longrightarrow>
               fst (simulate_handler ns env req backend)
                 = Responded 400 [] (error_body input_required_msg)))
       \<and> (script \<noteq> [] \<longrightarrow>
            fst (simulate_handler ns env req backend)
              \<noteq> Responded 400 [] (error_body input_required_msg))"
proof -
  obtain pf where pf: "get_prop (req_body req) ''potential_file_id'' = Inr pf"
    using get_prop_Inr_other [OF ic] by blast
  have a: "script = [] \<Longrightarrow> snd (simulate_handler ns env req backend) = []"
    using ic pf by (simp add: simulate_handler_def)
  have a': "script = [] \<Longrightarrow> req_method req = ''POST'' \<Longrightarrow>
              fst (simulate_handler ns env req backend)
                = Responded 400 [] (error_body input_required_msg)"
    using ic pf by (simp add: simulate_handler_def)
  have b: "script \<noteq> [] \<Longrightarrow> fst (simulate_handler ns env req backend)
              \<noteq> Responded 400 [] (error_body input_required_msg)"
    using ic pf simulate_catch_not_input_required
    by (auto simp: simulate_handler_def Let_def error_body_def input_required_msg_def
          read_data_msg_def
        split: option.splits promise.splits)
  from a a' b show ?thesis by blast
qed

theorem empty_script_is_a_validation_error_witness:
  "simulate_handler no_numbers example_env (post_script []) backend_completes
     = (Responded 400 [] (error_body input_required_msg), [])
   \<and> fst (simulate_handler no_numbers example_env (post_script ''units lj'') backend_completes)
       \<noteq> Responded 400 [] (error_body input_required_msg)"
proof -
  have e: "get_prop (req_body (post_script [])) ''input_content'' = Inr (JStr [])"
    by (simp add: post_script_def)
  have n: "get_prop (req_body (post_script ''units lj'')) ''input_content''
             = Inr (JStr ''units lj'')"
    by (simp add: post_script_def)
  have m: "req_method (post_script []) = ''POST''"
    by (simp add: post_script_def)
  from empty_script_is_a_validation_error [OF e, of no_numbers example_env backend_completes] m
       empty_script_is_a_validation_error [OF n, of no_numbers example_env backend_completes]
  show ?thesis by (simp add: prod_eq_iff)
qed

subsection \<open>C5: what a submission answers with\<close>




subsection \<open>C6: the timeout of a run\<close>

text \<open>
  C6 as stated: the timeout on a run defaults to 10 minutes (600000 ms) and is
  configurable. The only timeout in the sources is the one the simulate route puts on
  its call to the backend's run endpoint, and it is the literal 600000: a deployment that
  sets a timeout variable and a request that carries a timeout field get the same
  600000 ms as any other.
\<close>

theorem run_timeout_is_fixed_counterexample:
  "map call_timeout
     (snd (simulate_handler no_numbers example_env (post_script ''units lj'') backend_completes))
     = [600000]
   \<and> map call_timeout
     (snd (simulate_handler no_numbers tuned_env tuned_request backend_completes))
     = [600000]"
  by (simp add: example_accepted tuned_accepted example_call_def simulate_call_def)

text \<open>
  C6, amended: every call the simulate route makes to the backend's run endpoint is
  bounded by a timeout of 600000 ms, that is 10 minutes, whatever the deployment's
  environment and whatever the request; the value is not configurable.
\<close>

theorem run_timeout_is_ten_minutes:
  assumes "c \<in> set (snd (simulate_handler ns env req backend))"
  shows "call_timeout c = 600000 \<and> call_timeout c = 10 * 60 * 1000"
  using simulate_calls_timeout [OF assms] by simp

theorem run_timeout_is_ten_minutes_witness:
  "example_call \<in> set (snd (simulate_handler no_numbers tuned_env tuned_request backend_completes))
   \<and> call_timeout example_call = 600000"
proof -
  have m: "example_call
             \<in> set (snd (simulate_handler no_numbers tuned_env tuned_request backend_completes))"
    by (simp add: tuned_accepted)
  from run_timeout_is_ten_minutes [OF m] m show ?thesis by simp
qed

subsection \<open>C7: a run that exceeds the timeout\<close>

text \<open>
  C7 as stated: when the run exceeds the timeout the job ends in status 'failed', the
  error text indicates a timeout and the result has no trajectory artifact id. When the
  call to the backend's run endpoint times out, the simulate route answers with HTTP
  status 504 and an object that has the error text only: the result has no status field,
  so none that reads 'failed'.
\<close>

theorem timed_out_run_has_no_failed_status_counterexample:
  "fst (simulate_handler no_numbers example_env (post_script ''units lj'') backend_times_out)
     = Responded 504 [] (JObj [(''error'', JStr timed_out_msg)])
   \<and> get_prop (JObj [(''error'', JStr timed_out_msg)]) ''status'' = Inr JUndefined
   \<and> get_prop (JObj [(''error'', JStr timed_out_msg)]) ''status'' \<noteq> Inr (JStr ''failed'')"
  by (simp add: example_accepted backend_times_out_def simulate_catch_def error_body_def)

text \<open>
  C7, amended: for every accepted run-job request whose call to the backend's run
  endpoint exceeds the timeout (axios rejects with code ECONNABORTED and no response),
  the simulate route answers with HTTP status 504; the error text says that the
  simulation timed out; and the result carries the error field only: no trajectory
  artifact id, no series, no counts.
\<close>

theorem timed_out_run_answer:
  assumes "req_method req = ''POST''"
    and "get_prop (req_body req) ''input_content'' = Inr (JStr script)"
    and "get_prop (req_body req) ''potential_file_id'' = Inr pf"
    and "script \<noteq> []"
    and "\<not> (str_includes script ''read_data'' \<and> \<not> str_includes script ''# read_data'')"
    and "env ''NEXT_PUBLIC_API_URL'' = Some backendUrl" and "backendUrl \<noteq> []"
    and "backend (simulate_call backendUrl (simulate_request_body script pf))
           = Rejected (AxiosError (Some ''ECONNABORTED'') None)"
  shows "fst (simulate_handler ns env req backend) = Responded 504 [] (error_body timed_out_msg)
       \<and> str_includes timed_out_msg ''timed out''
       \<and> failure_shaped (error_body timed_out_msg)
       \<and> \<not> populated (error_body timed_out_msg) ''trajectory_file_id''"
  using assms
  by (simp add: simulate_handler_accepted simulate_catch_def timed_out_msg_says_so
        failure_shaped_error_body)
     (simp add: error_body_def populated_def)

theorem timed_out_run_answer_witness:
  "fst (simulate_handler no_numbers example_env (post_script ''units lj'') backend_times_out)
     = Responded 504 [] (error_body timed_out_msg)
   \<and> str_includes timed_out_msg ''timed out''
   \<and> \<not> populated (error_body timed_out_msg) ''trajectory_file_id''"
proof -
  have "req_method (post_script ''units lj'') = ''POST''"
    and "get_prop (req_body (post_script ''units lj'')) ''input_content''
           = Inr (JStr ''units lj'')"
    and "get_prop (req_body (post_script ''units lj'')) ''potential_file_id'' = Inr JUndefined"
    and "''units lj'' \<noteq> []"
    and "\<not> (str_includes ''units lj'' ''read_data''
            \<and> \<not> str_includes ''units lj'' ''# read_data'')"
    and "example_env ''NEXT_PUBLIC_API_URL'' = Some ''http://fastapi:8000''"
    and "''http://fastapi:8000'' \<noteq> []"
    and "backend_times_out
           (simulate_call ''http://fastapi:8000'' (simulate_request_body ''units lj'' JUndefined))
           = Rejected (AxiosError (Some ''ECONNABORTED'') None)"
    by (simp_all add: post_script_def example_env_def backend_times_out_def)
  from timed_out_run_answer
         [where req = "post_script ''units lj''" and script = "''units lj''"
            and pf = JUndefined and env = example_env
            and backendUrl = "''http://fastapi:8000''"
            and ns = no_numbers and backend = backend_times_out, OF this]
  show ?thesis by simp
qed

subsection \<open>C8: the status of a simulation record\<close>

text \<open>
  C8 as stated: a new simulation record has status 'pending', the only statuses are
  'pending', 'running', 'completed' and 'failed', and a job never leaves a terminal
  state. The table stores the status as unconstrained text and the status mutation
  writes whatever string it is given: a record that is 'completed' is set back to
  'pending', and it is set to 'cancelled', which is none of the four.
\<close>

theorem status_is_free_text_counterexample:
  "status_of db1 ''sim-1'' = Some ''completed''
   \<and> terminal_status ''completed''
   \<and> status_of (snd (UPDATE_SIMULATION_STATUS ''sim-1'' ''pending'' 2 db1)) ''sim-1''
       = Some ''pending''
   \<and> status_of (snd (UPDATE_SIMULATION_STATUS ''sim-1'' ''cancelled'' 2 db1)) ''sim-1''
       = Some ''cancelled''
   \<and> ''cancelled'' \<notin> set known_statuses"
  by (simp add: db1_def db0_def CREATE_SIMULATION_def insert_simulations_one_def Let_def
        UPDATE_SIMULATION_STATUS_def status_of_def terminal_status_def known_statuses_def)

text \<open>
  C8, amended: every newly created simulation record has status 'pending', by the
  literal of the create mutation and also by the column default when an insert leaves
  the status out. The status is text without a constraint: on an existing record the
  status mutation stores the string it is given, whatever it is and whatever the record's
  status was.
\<close>

theorem created_simulation_is_pending:
  "(CREATE_SIMULATION new_id now inp db = Inr (row, db') \<longrightarrow>
       status row = ''pending'' \<and> status_of db' new_id = Some ''pending'')
   \<and> (insert_simulations_one new_id now inp None db = Inr (row, db') \<longrightarrow>
       status row = ''pending'' \<and> status_of db' new_id = Some ''pending'')
   \<and> (status_of db ident \<noteq> None \<longrightarrow>
       status_of (snd (UPDATE_SIMULATION_STATUS ident st now db)) ident = Some st)"
  using insert_status [of new_id now inp "Some ''pending''" db row db']
        insert_status [of new_id now inp None db row db']
        update_status [of db ident _ st now]
  by (auto simp: CREATE_SIMULATION_def status_of_def)

theorem created_simulation_is_pending_witness:
  "(\<exists>row db'. CREATE_SIMULATION ''sim-1'' 0 ''input-1'' db0 = Inr (row, db')
       \<and> status row = ''pending'' \<and> status_of db' ''sim-1'' = Some ''pending'')
   \<and> status_of db1 ''sim-1'' \<noteq> None
   \<and> status_of (snd (UPDATE_SIMULATION_STATUS ''sim-1'' ''failed'' 2 db1)) ''sim-1''
       = Some ''failed''"
proof -
  obtain row db' where c: "CREATE_SIMULATION ''sim-1'' 0 ''input-1'' db0 = Inr (row, db')"
    by (simp add: CREATE_SIMULATION_def insert_simulations_one_def db0_def Let_def)
  have e: "status_of db1 ''sim-1'' \<noteq> None"
    by (simp add: db1_def db0_def CREATE_SIMULATION_def insert_simulations_one_def Let_def
          UPDATE_SIMULATION_STATUS_def status_of_def)
  from created_simulation_is_pending
         [where new_id = "''sim-1''" and now = 0 and inp = "''input-1''" and db = db0
            and row = row and db' = db']
       created_simulation_is_pending
         [where db = db1 and ident = "''sim-1''" and st = "''failed''" and now = 2] c e
  show ?thesis by blast
qed

subsection \<open>C9: fetching a trajectory\<close>




subsection \<open>C10: the check for data files\<close>

text \<open>
  C10 as stated: a request whose script contains 'read_data' but not '# read_data' is
  rejected with a 400 error before any call to the backend, and requests without an
  uncommented read_data reference are not rejected by this check. The second half fails:
  the script \<open>#read_data data.lmp\<close>, and the script \<open>units lj\<close> followed by the comment
  line \<open># no read_data needed here\<close>, have no uncommented reference, and both get the
  400 of this check.
\<close>

theorem commented_read_data_is_rejected_counterexample:
  "\<not> uncommented_read_data ''#read_data data.lmp''
   \<and> simulate_handler no_numbers example_env (post_script ''#read_data data.lmp'')
         backend_completes
       = (Responded 400 [] (error_body read_data_msg), [])
   \<and> \<not> uncommented_read_data (''units lj'' @ [CHR 0x0A] @ ''# no read_data needed here'')
   \<and> simulate_handler no_numbers example_env
         (post_script (''units lj'' @ [CHR 0x0A] @ ''# no read_data needed here''))
         backend_completes
       = (Responded 400 [] (error_body read_data_msg), [])"
  by (simp add: uncommented_read_data_def simulate_handler_def post_script_def Let_def)

text \<open>
  C10, amended: for every run-job request whose script content contains the literal
  string 'read_data' but does not contain '# read_data', the simulate route rejects the
  request with a 400 error before any call to the backend; a request is not rejected by
  this check exactly when its script does not contain 'read_data' or contains
  '# read_data' somewhere. The check is on the text alone: it does not tell a commented
  command from an uncommented one.
\<close>

theorem read_data_check:
  assumes post: "req_method req = ''POST''"
    and ic: "get_prop (req_body req) ''input_content'' = Inr (JStr script)"
  shows "(str_includes script ''read_data'' \<and> \<not> str_includes script ''# read_data'' \<longrightarrow>
            simulate_handler ns env req backend
              = (Responded 400 [] (error_body read_data_msg), []))
       \<and> (\<not> (str_includes script ''read_data'' \<and> \<not> str_includes script ''# read_data'') \<longrightarrow>
            fst (simulate_handler ns env req backend)
              \<noteq> Responded 400 [] (error_body read_data_msg))"
proof -
  obtain pf where pf: "get_prop (req_body req) ''potential_file_id'' = Inr pf"
    using get_prop_Inr_other [OF ic] by blast
  have a: "simulate_handler ns env req backend
              = (Responded 400 [] (error_body read_data_msg), [])"
    if "str_includes script ''read_data''" "\<not> str_includes script ''# read_data''"
  proof -
    from that(1) have "script \<noteq> []" by (rule str_includes_imp_nonempty) simp
    with that post ic pf show ?thesis by (simp add: simulate_handler_def)
  qed
  have b: "fst (simulate_handler ns env req backend)
              \<noteq> Responded 400 [] (error_body read_data_msg)"
    if "\<not> (str_includes script ''read_data'' \<and> \<not> str_includes script ''# read_data'')"
    using that post ic pf simulate_catch_not_read_data
    by (auto simp: simulate_handler_def Let_def error_body_def input_required_msg_def
          read_data_msg_def
        split: option.splits promise.splits)
  from a b show ?thesis by blast
qed

theorem read_data_check_witness:
  "simulate_handler no_numbers example_env (post_script ''read_data data.lmp'')
       backend_completes
     = (Responded 400 [] (error_body read_data_msg), [])
   \<and> fst (simulate_handler no_numbers example_env (post_script ''# read_data data.lmp'')
            backend_completes)
       \<noteq> Responded 400 [] (error_body read_data_msg)"
proof -
  have r: "req_method (post_script ''read_data data.lmp'') = ''POST''"
    "get_prop (req_body (post_script ''read_data data.lmp'')) ''input_content''
       = Inr (JStr ''read_data data.lmp'')"
    by (simp_all add: post_script_def)
  have c: "req_method (post_script ''# read_data data.lmp'') = ''POST''"
    "get_prop (req_body (post_script ''# read_data data.lmp'')) ''input_content''
       = Inr (JStr ''# read_data data.lmp'')"
    by (simp_all add: post_script_def)
  have i: "str_includes ''read_data data.lmp'' ''read_data''"
    "\<not> str_includes ''read_data data.lmp'' ''# read_data''"
    "str_includes ''# read_data data.lmp'' ''# read_data''"
    by simp_all
  from read_data_check [where req = "post_script ''read_data data.lmp''"
                          and script = "''read_data data.lmp''" and ns = no_numbers
                          and env = example_env and backend = backend_completes, OF r]
       read_data_check [where req = "post_script ''# read_data data.lmp''"
                          and script = "''# read_data data.lmp''" and ns = no_numbers
                          and env = example_env and backend = backend_completes, OF c]
       i
  show ?thesis by blast
qed

text \<open>The check reads the text, not the script's syntax: a comment written without the
  blank is refused, and a script that has the command both commented and uncommented is
  let through to the backend.\<close>

lemma read_data_check_is_textual:
  "fst (simulate_handler no_numbers example_env (post_script ''#read_data data.lmp'')
          backend_completes)
     = Responded 400 [] (error_body read_data_msg)
   \<and> fst (simulate_handler no_numbers example_env
            (post_script (''# read_data a'' @ [CHR 0x0A] @ ''read_data b''))
            backend_completes)
     = Responded 200 [] example_payload"
  by (simp add: simulate_handler_def post_script_def example_env_def backend_completes_def
        Let_def)

end
